theory Spec2Isabelle
  imports Main "HOL-Library.Word"
begin

section \<open>Symbol handling of the module library (libs/libc/modlib/modlib_symbols.c)\<close>

text \<open>
  The C file is embedded function by function.  Every function that returns an
  \<^verbatim>\<open>int\<close> status returns a value of type \<open>errno + unit\<close> here (\<open>Inl e\<close> for the
  negated errno \<open>-e\<close>, \<open>OK\<close> for 0), together with every object it may have written.

  The target has 32 bits: \<^verbatim>\<open>Elf32_Word\<close>, \<^verbatim>\<open>Elf32_Addr\<close>, \<^verbatim>\<open>Elf32_Off\<close> and
  \<^verbatim>\<open>size_t\<close> are \<open>32 word\<close>, \<^verbatim>\<open>Elf32_Half\<close> is \<open>16 word\<close>, and \<^verbatim>\<open>sizeof(Elf_Sym)\<close>
  is 16.  The members \<^verbatim>\<open>filelen\<close> and \<^verbatim>\<open>buflen\<close> and the type \<^verbatim>\<open>off_t\<close> are declared
  outside the file; file positions and lengths inside \<^verbatim>\<open>modlib_symname\<close> are
  natural numbers here, so the model describes the runs in which these do not
  overflow.  \<open>EFAULT\<close> is not a status of the source: it marks the places where
  \<^verbatim>\<open>modlib_insertsymtab\<close> would read outside an array it is given.
\<close>

subsection \<open>Status values\<close>

datatype errno = ESRCH | EINVAL | ENOSYS | ENOENT | ENOMEM | EIO | EFAULT

type_synonym status = "errno + unit"

abbreviation OK :: status where
  "OK \<equiv> Inr ()"

subsection \<open>ELF data\<close>

type_synonym bytes = "8 word list"

record Elf_Sym =
  st_name :: "32 word"
  st_value :: "32 word"
  st_size :: "32 word"
  st_info :: "8 word"
  st_other :: "8 word"
  st_shndx :: "16 word"

record Elf_Shdr =
  sh_type :: "32 word"
  sh_addr :: "32 word"
  sh_offset :: "32 word"
  sh_size :: "32 word"
  sh_link :: "32 word"

definition sizeof_Elf_Sym :: nat where
  "sizeof_Elf_Sym = 16"

definition SHN_UNDEF :: "16 word" where
  "SHN_UNDEF = 0"

definition SHN_ABS :: "16 word" where
  "SHN_ABS = 0xfff1"

definition SHN_COMMON :: "16 word" where
  "SHN_COMMON = 0xfff2"

subsection \<open>Global state: allocator, registry, built-in exports\<close>

text \<open>
  Pointers are addresses, 0 for NULL.  An export table is an array of
  \<^verbatim>\<open>struct symtab_s\<close> in allocated memory; each \<open>sym_name\<close> points to a string that
  is an allocation of its own.
\<close>

type_synonym ptr = nat

record symtab_s =
  sym_name :: ptr
  sym_value :: "32 word"

datatype obj = Str bytes | Tab "symtab_s list"

datatype fault = BadFree ptr | BadAccess ptr

text \<open>
  \<^verbatim>\<open>struct module_s\<close>, reduced to the members the file uses: \<open>exports\<close> and
  \<open>nexports\<close> are \<^verbatim>\<open>modinfo.exports\<close> and \<^verbatim>\<open>modinfo.nexports\<close>; \<open>self\<close> is the address
  of the structure, which is what identifies a module.
\<close>

record module_s =
  self :: ptr
  exports :: ptr
  nexports :: nat

text \<open>
  Everything the file reaches through functions it does not define: the allocator
  behind \<^verbatim>\<open>lib_malloc\<close>, \<^verbatim>\<open>lib_free\<close>, \<^verbatim>\<open>strdup\<close> (\<open>objs\<close> are the live
  allocations, \<open>brk\<close> the highest address handed out, \<open>avail\<close> says for each coming
  request whether memory is available, an exhausted list meaning it is, and
  \<open>faults\<close> logs every use of a pointer that is not live), the module registry
  (newest module first), the built-in export table and its length as
  \<^verbatim>\<open>modlib_getsymtab\<close> returns them, and the dependency edges recorded so far
  (importer, exporter).  \<open>after_shdr\<close> is the memory that lies behind the array of
  section headers of the load session, read as further section headers: \<open>after_shdr g k\<close>
  is what a read of the element \<open>k\<close> places behind the last header yields.
\<close>

record globals =
  objs :: "ptr \<rightharpoonup> obj"
  brk :: ptr
  avail :: "bool list"
  faults :: "fault list"
  g_mod_registry :: "module_s list"
  g_symtab :: ptr
  g_nsymbols :: nat
  depends :: "(ptr \<times> ptr) list"
  after_shdr :: "nat \<Rightarrow> Elf_Shdr"

text \<open>
  Modelled from the spec: the allocator ("allocate/free/duplicate-string") is not
  part of the file.  An allocation returns NULL when memory is not available and
  the address after \<open>brk\<close> otherwise; addresses are never handed out twice, so
  that a stale pointer stays recognisable.
\<close>

definition lib_malloc :: "obj \<Rightarrow> globals \<Rightarrow> ptr \<times> globals" where
  "lib_malloc ob g =
     (case avail g of
        False # rest \<Rightarrow> (0, g\<lparr>avail := rest\<rparr>)
      | _ \<Rightarrow> (Suc (brk g), g\<lparr>objs := (objs g)(Suc (brk g) \<mapsto> ob),
                              brk := Suc (brk g), avail := tl (avail g)\<rparr>))"

definition lib_free :: "ptr \<Rightarrow> globals \<Rightarrow> globals" where
  "lib_free p g =
     (if p = 0 then g
      else if objs g p = None then g\<lparr>faults := faults g @ [BadFree p]\<rparr>
      else g\<lparr>objs := (objs g)(p := None)\<rparr>)"

definition cstring :: "bytes \<Rightarrow> bytes" where
  "cstring buffer = takeWhile (\<lambda>b. b \<noteq> 0) buffer"

definition strdup :: "bytes \<Rightarrow> globals \<Rightarrow> ptr \<times> globals" where
  "strdup s g = lib_malloc (Str (cstring s)) g"

subsection \<open>The load session\<close>

text \<open>
  \<^verbatim>\<open>struct mod_loadinfo_s\<close>, reduced to the members the file uses.  \<open>filedata\<close> is the
  content of the module file behind the descriptor; \<open>filelen\<close> is the member of that
  name.  The buffer \<open>iobuffer\<close> and its size \<open>buflen\<close> are one list.  \<open>exported\<close>
  is a pointer.
\<close>

record mod_loadinfo_s =
  filedata :: bytes
  filelen :: nat
  shdr :: "Elf_Shdr list"
  iobuffer :: bytes
  exported :: ptr

definition buflen :: "mod_loadinfo_s \<Rightarrow> nat" where
  "buflen loadinfo = length (iobuffer loadinfo)"

text \<open>
  Modelled from the spec: \<^verbatim>\<open>modlib_read\<close> is not part of the file.  The bounded read
  "fills the buffer from the module image or fails with an I/O error": it returns
  the \<open>readsize\<close> bytes at \<open>offset\<close> when the image has them and fails otherwise.
\<close>

definition modlib_read :: "mod_loadinfo_s \<Rightarrow> nat \<Rightarrow> nat \<Rightarrow> errno + bytes" where
  "modlib_read loadinfo readsize offset =
     (if offset + readsize \<le> length (filedata loadinfo)
      then Inr (take readsize (drop offset (filedata loadinfo)))
      else Inl EIO)"

text \<open>
  Modelled from the spec: \<^verbatim>\<open>modlib_reallocbuffer\<close> is not part of the file.  The
  buffer grow "grows the read buffer's capacity, preserving existing contents, or
  fails with allocation failure".  The new bytes are zero here; no result below
  depends on them.
\<close>

definition modlib_reallocbuffer ::
  "mod_loadinfo_s \<Rightarrow> nat \<Rightarrow> globals \<Rightarrow> status \<times> mod_loadinfo_s \<times> globals" where
  "modlib_reallocbuffer loadinfo increment g =
     (case avail g of
        False # rest \<Rightarrow> (Inl ENOMEM, loadinfo, g\<lparr>avail := rest\<rparr>)
      | _ \<Rightarrow> (OK, loadinfo\<lparr>iobuffer := iobuffer loadinfo @ replicate increment 0\<rparr>,
              g\<lparr>avail := tl (avail g)\<rparr>))"

subsection \<open>The name of a symbol\<close>

text \<open>
  The loop of \<^verbatim>\<open>modlib_symname\<close>, with \<^verbatim>\<open>offset\<close> and \<^verbatim>\<open>bytesread\<close> as arguments.
  \<open>incr\<close> is \<^verbatim>\<open>CONFIG_MODLIB_BUFFERINCR\<close>.  The bytes read are written over
  \<^verbatim>\<open>iobuffer[bytesread .. bytesread + readlen - 1]\<close>; \<^verbatim>\<open>memchr\<close> looks at these bytes
  only.  \<^verbatim>\<open>bytesread\<close> never exceeds \<^verbatim>\<open>buflen\<close>, so the subtraction does not wrap.
  The loop has no bound of its own: a run that never returns is \<open>None\<close>.
\<close>

partial_function (option) symname_loop ::
  "nat \<Rightarrow> mod_loadinfo_s \<Rightarrow> globals \<Rightarrow> nat \<Rightarrow> nat \<Rightarrow>
   (status \<times> mod_loadinfo_s \<times> globals) option" where
  "symname_loop incr loadinfo g offset bytesread =
     (if offset + (buflen loadinfo - bytesread) > filelen loadinfo \<and>
         filelen loadinfo \<le> offset
      then Some (Inl EINVAL, loadinfo, g)
      else
        (let readlen =
               (if offset + (buflen loadinfo - bytesread) > filelen loadinfo
                then filelen loadinfo - offset
                else buflen loadinfo - bytesread)
         in case modlib_read loadinfo readlen offset of
              Inl e \<Rightarrow> Some (Inl e, loadinfo, g)
            | Inr bs \<Rightarrow>
                (let loadinfo1 = loadinfo\<lparr>iobuffer :=
                       take bytesread (iobuffer loadinfo) @ bs @
                       drop (bytesread + readlen) (iobuffer loadinfo)\<rparr>
                 in if 0 \<in> set bs then Some (OK, loadinfo1, g)
                    else
                      (case modlib_reallocbuffer loadinfo1 incr g of
                         (Inl e, loadinfo2, g2) \<Rightarrow> Some (Inl e, loadinfo2, g2)
                       | (Inr u, loadinfo2, g2) \<Rightarrow>
                           symname_loop incr loadinfo2 g2 (offset + incr)
                             (bytesread + readlen)))))"

text \<open>
  \<^verbatim>\<open>modlib_symname\<close>.  The sum \<^verbatim>\<open>sh_offset + sym->st_name\<close> is one of two 32-bit
  unsigned values.
\<close>

definition modlib_symname ::
  "nat \<Rightarrow> mod_loadinfo_s \<Rightarrow> Elf_Sym \<Rightarrow> 32 word \<Rightarrow> globals \<Rightarrow>
   (status \<times> mod_loadinfo_s \<times> globals) option" where
  "modlib_symname incr loadinfo esym sh_off g =
     (if st_name esym = 0 then Some (Inl ESRCH, loadinfo, g)
      else symname_loop incr loadinfo g (unat (sh_off + st_name esym)) 0)"

subsection \<open>Symbol records in the file\<close>

text \<open>
  \<^verbatim>\<open>modlib_readsym\<close> copies \<^verbatim>\<open>sizeof(Elf_Sym)\<close> bytes over the caller's record.  The
  members are read back from those bytes in the layout of \<^verbatim>\<open>Elf32_Sym\<close> on a
  little-endian target.
\<close>

definition le16 :: "bytes \<Rightarrow> 16 word" where
  "le16 bs = ucast (bs ! 0) + 256 * ucast (bs ! 1)"

definition le32 :: "bytes \<Rightarrow> 32 word" where
  "le32 bs = ucast (bs ! 0) + 256 * ucast (bs ! 1) + 65536 * ucast (bs ! 2)
             + 16777216 * ucast (bs ! 3)"

definition sym_of_bytes :: "bytes \<Rightarrow> Elf_Sym" where
  "sym_of_bytes bs =
     \<lparr>st_name = le32 bs, st_value = le32 (drop 4 bs), st_size = le32 (drop 8 bs),
      st_info = bs ! 12, st_other = bs ! 13, st_shndx = le16 (drop 14 bs)\<rparr>"

text \<open>
  \<^verbatim>\<open>modlib_readsym\<close>.  The result carries the record \<^verbatim>\<open>*sym\<close> after the call: the old
  record when nothing was read.  The file offset is computed in \<^verbatim>\<open>size_t\<close>, 32 bits
  wide on the target.
\<close>

definition modlib_readsym ::
  "mod_loadinfo_s \<Rightarrow> int \<Rightarrow> Elf_Sym \<Rightarrow> Elf_Shdr \<Rightarrow> status \<times> Elf_Sym" where
  "modlib_readsym loadinfo index esym symtab =
     (if index < 0 \<or> index > int (unat (sh_size symtab) div sizeof_Elf_Sym)
      then (Inl EINVAL, esym)
      else
        (let offset = unat (sh_offset symtab + word_of_nat sizeof_Elf_Sym * word_of_int index)
         in case modlib_read loadinfo sizeof_Elf_Sym offset of
              Inl e \<Rightarrow> (Inl e, esym)
            | Inr bs \<Rightarrow> (OK, sym_of_bytes bs)))"

subsection \<open>Export tables in memory\<close>

text \<open>
  The first \<open>n\<close> entries of the array at \<open>p\<close>, when \<open>p\<close> is a live array that has
  them.
\<close>

definition table_at :: "globals \<Rightarrow> ptr \<Rightarrow> nat \<Rightarrow> symtab_s list option" where
  "table_at g p n =
     (case objs g p of
        Some (Tab es) \<Rightarrow> if n \<le> length es then Some (take n es) else None
      | _ \<Rightarrow> None)"

definition name_at :: "globals \<Rightarrow> ptr \<Rightarrow> bytes option" where
  "name_at g p = (case objs g p of Some (Str s) \<Rightarrow> Some s | _ \<Rightarrow> None)"

text \<open>The assignment \<^verbatim>\<open>symbol[j] = e\<close> for the array at \<open>p\<close>.\<close>

definition tab_store :: "ptr \<Rightarrow> nat \<Rightarrow> symtab_s \<Rightarrow> globals \<Rightarrow> globals" where
  "tab_store p j e g =
     (case objs g p of
        Some (Tab es) \<Rightarrow>
          if j < length es then g\<lparr>objs := (objs g)(p \<mapsto> Tab (es[j := e]))\<rparr>
          else g\<lparr>faults := faults g @ [BadAccess p]\<rparr>
      | _ \<Rightarrow> g\<lparr>faults := faults g @ [BadAccess p]\<rparr>)"

text \<open>
  Modelled from the spec: \<^verbatim>\<open>symtab_findbyname\<close> is not part of the file.  It
  "performs a name lookup in [the] export table": the first of the \<open>nsyms\<close>
  entries whose name is the string looked for, and NULL when there is none or
  when there is no table.
\<close>

definition symtab_findbyname ::
  "globals \<Rightarrow> ptr \<Rightarrow> bytes \<Rightarrow> nat \<Rightarrow> symtab_s option" where
  "symtab_findbyname g symtab name nsyms =
     (case table_at g symtab nsyms of
        Some es \<Rightarrow> find (\<lambda>e. name_at g (sym_name e) = Some name) es
      | None \<Rightarrow> None)"

subsection \<open>Resolving a symbol\<close>

definition SYM_NOT_FOUND :: nat where
  "SYM_NOT_FOUND = 0"

definition SYM_FOUND :: nat where
  "SYM_FOUND = 1"

text \<open>
  \<^verbatim>\<open>struct mod_exportinfo_s\<close>.  \<open>ei_name\<close> is the string that \<^verbatim>\<open>name\<close> points to,
  \<open>ei_symbol\<close> the table entry that \<^verbatim>\<open>symbol\<close> points to.
\<close>

record mod_exportinfo_s =
  ei_name :: bytes
  ei_modp :: module_s
  ei_symbol :: "symtab_s option"

text \<open>
  Modelled from the spec: \<^verbatim>\<open>modlib_depend\<close> is not part of the file.  The
  dependency registration "records the edge or fails with allocation failure".
\<close>

definition modlib_depend :: "module_s \<Rightarrow> module_s \<Rightarrow> globals \<Rightarrow> status \<times> globals" where
  "modlib_depend importer exporter g =
     (case avail g of
        False # rest \<Rightarrow> (Inl ENOMEM, g\<lparr>avail := rest\<rparr>)
      | _ \<Rightarrow> (OK, g\<lparr>depends := depends g @ [(self importer, self exporter)],
                    avail := tl (avail g)\<rparr>))"

text \<open>
  Modelled from the spec: \<^verbatim>\<open>modlib_registry_foreach\<close> is not part of the file.  The
  registry traversal "invokes [the callback] once per currently loaded module
  (most-recent-first) until the callback signals stop or the set is exhausted"
  and hands back what the last call returned.  A callback returns a negated errno
  (\<open>Inl\<close>) or a value that is not negative (\<open>Inr\<close>); any value other than 0 stops
  the traversal.
\<close>

fun registry_walk ::
  "(module_s \<Rightarrow> 'a \<Rightarrow> globals \<Rightarrow> (errno + nat) \<times> 'a \<times> globals) \<Rightarrow>
   module_s list \<Rightarrow> 'a \<Rightarrow> globals \<Rightarrow> (errno + nat) \<times> 'a \<times> globals" where
  "registry_walk callback [] arg g = (Inr 0, arg, g)"
| "registry_walk callback (m # ms) arg g =
     (case callback m arg g of
        (ret, arg1, g1) \<Rightarrow>
          if ret \<noteq> Inr 0 then (ret, arg1, g1) else registry_walk callback ms arg1 g1)"

definition modlib_registry_foreach ::
  "(module_s \<Rightarrow> 'a \<Rightarrow> globals \<Rightarrow> (errno + nat) \<times> 'a \<times> globals) \<Rightarrow>
   'a \<Rightarrow> globals \<Rightarrow> (errno + nat) \<times> 'a \<times> globals" where
  "modlib_registry_foreach callback arg g = registry_walk callback (g_mod_registry g) arg g"

text \<open>\<^verbatim>\<open>modlib_symcallback\<close>.\<close>

definition modlib_symcallback ::
  "module_s \<Rightarrow> mod_exportinfo_s \<Rightarrow> globals \<Rightarrow> (errno + nat) \<times> mod_exportinfo_s \<times> globals"
  where
  "modlib_symcallback modp exportinfo g =
     (let exportinfo1 = exportinfo\<lparr>ei_symbol :=
            symtab_findbyname g (exports modp) (ei_name exportinfo) (nexports modp)\<rparr>
      in if ei_symbol exportinfo1 \<noteq> None
         then (case modlib_depend (ei_modp exportinfo1) modp g of
                 (Inl e, g1) \<Rightarrow> (Inl e, exportinfo1, g1)
               | (Inr u, g1) \<Rightarrow> (Inr SYM_FOUND, exportinfo1, g1))
         else (Inr SYM_NOT_FOUND, exportinfo1, g))"

text \<open>
  The read \<^verbatim>\<open>loadinfo->shdr[i]\<close>.  The source reads the element without comparing
  \<open>i\<close> with the number of section headers: an index behind the array yields what
  the memory there holds.
\<close>

definition shdr_read :: "mod_loadinfo_s \<Rightarrow> globals \<Rightarrow> nat \<Rightarrow> Elf_Shdr" where
  "shdr_read loadinfo g i =
     (if i < length (shdr loadinfo) then shdr loadinfo ! i
      else after_shdr g (i - length (shdr loadinfo)))"

text \<open>
  \<^verbatim>\<open>modlib_symvalue\<close>.  The result carries \<^verbatim>\<open>*sym\<close>, \<^verbatim>\<open>*loadinfo\<close> and the global state
  after the call.  The last case is the \<^verbatim>\<open>default\<close> of the switch: it adds
  \<^verbatim>\<open>loadinfo->shdr[sym->st_shndx].sh_addr\<close> and ends in OK, whatever the index is.
\<close>

definition modlib_symvalue ::
  "nat \<Rightarrow> module_s \<Rightarrow> mod_loadinfo_s \<Rightarrow> Elf_Sym \<Rightarrow> 32 word \<Rightarrow> globals \<Rightarrow>
   (status \<times> Elf_Sym \<times> mod_loadinfo_s \<times> globals) option" where
  "modlib_symvalue incr modp loadinfo esym sh_off g =
     (if st_shndx esym = SHN_COMMON then Some (Inl ENOSYS, esym, loadinfo, g)
      else if st_shndx esym = SHN_ABS then Some (OK, esym, loadinfo, g)
      else if st_shndx esym = SHN_UNDEF then
        (case modlib_symname incr loadinfo esym sh_off g of
           None \<Rightarrow> None
         | Some (Inl e, loadinfo1, g1) \<Rightarrow> Some (Inl e, esym, loadinfo1, g1)
         | Some (Inr u, loadinfo1, g1) \<Rightarrow>
             (let exportinfo = \<lparr>ei_name = cstring (iobuffer loadinfo1), ei_modp = modp,
                                ei_symbol = None\<rparr>
              in case modlib_registry_foreach modlib_symcallback exportinfo g1 of
                   (Inl e, exportinfo1, g2) \<Rightarrow> Some (Inl e, esym, loadinfo1, g2)
                 | (Inr r, exportinfo1, g2) \<Rightarrow>
                     (let symbol =
                            (case ei_symbol exportinfo1 of
                               None \<Rightarrow> symtab_findbyname g2 (g_symtab g2)
                                         (ei_name exportinfo1) (g_nsymbols g2)
                             | Some e \<Rightarrow> Some e)
                      in case symbol of
                           None \<Rightarrow> Some (Inl ENOENT, esym, loadinfo1, g2)
                         | Some e \<Rightarrow>
                             Some (OK, esym\<lparr>st_value := st_value esym + sym_value e\<rparr>,
                                   loadinfo1, g2))))
      else Some (OK, esym\<lparr>st_value := st_value esym +
                       sh_addr (shdr_read loadinfo g (unat (st_shndx esym)))\<rparr>,
                 loadinfo, g))"

subsection \<open>Building and freeing a module's export table\<close>

text \<open>
  \<^verbatim>\<open>modlib_freesymtab\<close>.  The function writes to allocated memory only.  When the
  pointer in \<^verbatim>\<open>modinfo.exports\<close> is not a live array of \<^verbatim>\<open>nexports\<close> entries, the
  reads of \<^verbatim>\<open>symbol[i].sym_name\<close> are logged as a fault.
\<close>

definition modlib_freesymtab :: "module_s \<Rightarrow> globals \<Rightarrow> globals" where
  "modlib_freesymtab modp g =
     (if exports modp \<noteq> 0
      then (case table_at g (exports modp) (nexports modp) of
              Some es \<Rightarrow> lib_free (exports modp) (fold (\<lambda>e. lib_free (sym_name e)) es g)
            | None \<Rightarrow>
                lib_free (exports modp)
                  (g\<lparr>faults := faults g @ [BadAccess (exports modp)]\<rparr>))
      else g)"

text \<open>
  The second loop of \<^verbatim>\<open>modlib_insertsymtab\<close> over the entries \<^verbatim>\<open>sym[i]\<close> that are
  left, with \<^verbatim>\<open>j\<close> as argument.  \<open>strTab\<close> is the section header that \<^verbatim>\<open>strTab\<close>
  points to, if \<^verbatim>\<open>shdr->sh_link\<close> is the index of one.
\<close>

fun insert_loop ::
  "nat \<Rightarrow> Elf_Shdr option \<Rightarrow> Elf_Sym list \<Rightarrow> nat \<Rightarrow> module_s \<Rightarrow> mod_loadinfo_s \<Rightarrow>
   globals \<Rightarrow> (status \<times> module_s \<times> mod_loadinfo_s \<times> globals) option" where
  "insert_loop incr strTab [] j modp loadinfo g = Some (OK, modp, loadinfo, g)"
| "insert_loop incr strTab (s # ss) j modp loadinfo g =
     (if st_name s \<noteq> 0
      then (case strTab of
              None \<Rightarrow> Some (Inl EFAULT, modp, loadinfo, g)
            | Some st \<Rightarrow>
                (case modlib_symname incr loadinfo s (sh_offset st) g of
                   None \<Rightarrow> None
                 | Some (Inl e, loadinfo1, g1) \<Rightarrow>
                     Some (Inl e, modp\<lparr>exports := 0\<rparr>, loadinfo1,
                           lib_free (exports modp) g1)
                 | Some (Inr u, loadinfo1, g1) \<Rightarrow>
                     (case strdup (iobuffer loadinfo1) g1 of
                        (q, g2) \<Rightarrow>
                          insert_loop incr strTab ss (j + 1) modp loadinfo1
                            (tab_store (exports modp) j
                               \<lparr>sym_name = q, sym_value = st_value s\<rparr> g2))))
      else insert_loop incr strTab ss j modp loadinfo g)"

text \<open>
  \<^verbatim>\<open>modlib_insertsymtab\<close>.  \<open>syms\<close> is the array \<^verbatim>\<open>sym\<close>; the source reads its first
  \<^verbatim>\<open>nSym\<close> entries, and an array that is shorter is the status \<open>EFAULT\<close> here.
  The memory \<^verbatim>\<open>lib_malloc\<close> returns is not initialised; its entries are zero here
  until the loop assigns them.
\<close>

definition modlib_insertsymtab ::
  "nat \<Rightarrow> module_s \<Rightarrow> mod_loadinfo_s \<Rightarrow> Elf_Shdr \<Rightarrow> Elf_Sym list \<Rightarrow> globals \<Rightarrow>
   (status \<times> module_s \<times> mod_loadinfo_s \<times> globals) option" where
  "modlib_insertsymtab incr modp loadinfo shdrp syms g =
     (let strTab = (if unat (sh_link shdrp) < length (shdr loadinfo)
                    then Some (shdr loadinfo ! unat (sh_link shdrp)) else None);
          g1 = (if exports modp \<noteq> 0 then modlib_freesymtab modp g else g);
          nSym = unat (sh_size shdrp) div sizeof_Elf_Sym
      in if length syms < nSym then Some (Inl EFAULT, modp, loadinfo, g1)
         else
           (let symCount = length (filter (\<lambda>s. st_name s \<noteq> 0) (take nSym syms))
            in if symCount > 0
               then (case lib_malloc (Tab (replicate symCount
                                            \<lparr>sym_name = 0, sym_value = 0\<rparr>)) g1 of
                       (p, g2) \<Rightarrow>
                         if p \<noteq> 0
                         then insert_loop incr strTab (take nSym syms) 0
                                (modp\<lparr>exports := p, nexports := symCount\<rparr>)
                                (loadinfo\<lparr>exported := p\<rparr>) g2
                         else Some (Inl ENOMEM, modp\<lparr>exports := p\<rparr>,
                                    loadinfo\<lparr>exported := p\<rparr>, g2))
               else Some (OK, modp, loadinfo, g1)))"

subsection \<open>Example data\<close>

text \<open>
  Concrete states on which the functions are run below.  Names are byte strings:
  97, 98, \<open>\<dots>\<close> are the letters a, b, \<open>\<dots>\<close>; "foo" is 102, 111, 111, "bar" is
  98, 97, 114 and "baz" is 98, 97, 122.  \<open>ex_globals\<close> has three loaded modules, the
  newest (\<open>ex_modC\<close>) without exports and two that both export "foo", and a built-in
  table that exports "bar".  The memory behind the section headers holds the address
  0xdead0000 wherever an \<^verbatim>\<open>sh_addr\<close> is read from it.
\<close>

definition ex_stray :: Elf_Shdr where
  "ex_stray = \<lparr>sh_type = 0, sh_addr = 0xdead0000, sh_offset = 0, sh_size = 0, sh_link = 0\<rparr>"

definition ex_heap :: globals where
  "ex_heap = \<lparr>objs = Map.empty, brk = 0, avail = [], faults = [], g_mod_registry = [],
              g_symtab = 0, g_nsymbols = 0, depends = [], after_shdr = (\<lambda>k. ex_stray)\<rparr>"

definition ex_nosym :: Elf_Sym where
  "ex_nosym = \<lparr>st_name = 0, st_value = 0, st_size = 0, st_info = 0, st_other = 0,
               st_shndx = 0\<rparr>"

text \<open>An image whose string table, at offset 0, holds "foo", "bar" and "baz".\<close>

definition ex_loadinfo :: mod_loadinfo_s where
  "ex_loadinfo =
     \<lparr>filedata = [0, 102, 111, 111, 0, 98, 97, 114, 0, 98, 97, 122, 0], filelen = 13,
      shdr = [\<lparr>sh_type = 3, sh_addr = 0, sh_offset = 0, sh_size = 13, sh_link = 0\<rparr>,
              \<lparr>sh_type = 1, sh_addr = 0x8000, sh_offset = 0, sh_size = 0, sh_link = 0\<rparr>],
      iobuffer = [0, 0, 0, 0, 0, 0, 0, 0], exported = 0\<rparr>"

text \<open>
  The loaded modules, the module that is being loaded (\<open>ex_modp\<close>), the global
  state and an undefined symbol with its name at offset \<open>n\<close> of the string table.
\<close>

definition ex_modA :: module_s where
  "ex_modA = \<lparr>self = 200, exports = 1, nexports = 1\<rparr>"

definition ex_modB :: module_s where
  "ex_modB = \<lparr>self = 201, exports = 3, nexports = 1\<rparr>"

definition ex_modC :: module_s where
  "ex_modC = \<lparr>self = 202, exports = 0, nexports = 0\<rparr>"

definition ex_modp :: module_s where
  "ex_modp = \<lparr>self = 300, exports = 0, nexports = 0\<rparr>"

definition ex_globals :: globals where
  "ex_globals =
     \<lparr>objs = [1 \<mapsto> Tab [\<lparr>sym_name = 2, sym_value = 0x1000\<rparr>], 2 \<mapsto> Str [102, 111, 111],
              3 \<mapsto> Tab [\<lparr>sym_name = 4, sym_value = 0x2000\<rparr>], 4 \<mapsto> Str [102, 111, 111],
              5 \<mapsto> Tab [\<lparr>sym_name = 6, sym_value = 0x3000\<rparr>], 6 \<mapsto> Str [98, 97, 114]],
      brk = 6, avail = [], faults = [],
      g_mod_registry = [ex_modC, ex_modA, ex_modB],
      g_symtab = 5, g_nsymbols = 1, depends = [], after_shdr = (\<lambda>k. ex_stray)\<rparr>"

definition ex_undef :: "32 word \<Rightarrow> Elf_Sym" where
  "ex_undef n = \<lparr>st_name = n, st_value = 4, st_size = 0, st_info = 0, st_other = 0,
                 st_shndx = SHN_UNDEF\<rparr>"

text \<open>
  A symbol-table section of \<open>n\<close> bytes whose string table is section 0, a symbol
  defined in section 1 with its name at offset \<open>n\<close>, a module with one export
  ("foo") and the memory that holds its table, a file of three bytes with the name
  "a", a file with the name "abcdef" and a buffer of four bytes, and a built-in
  table with the names "abcdcdef" and "abcdef".
\<close>

definition ex_symsec :: "32 word \<Rightarrow> Elf_Shdr" where
  "ex_symsec n = \<lparr>sh_type = 2, sh_addr = 0, sh_offset = 0, sh_size = n, sh_link = 0\<rparr>"

definition ex_named :: "32 word \<Rightarrow> Elf_Sym" where
  "ex_named n = \<lparr>st_name = n, st_value = 0x10, st_size = 0, st_info = 0, st_other = 0,
                 st_shndx = 1\<rparr>"

definition ex_mod_loaded :: module_s where
  "ex_mod_loaded = \<lparr>self = 100, exports = 1, nexports = 1\<rparr>"

definition ex_heap_loaded :: globals where
  "ex_heap_loaded = ex_heap\<lparr>objs := [1 \<mapsto> Tab [\<lparr>sym_name = 2, sym_value = 0x1000\<rparr>],
                                    2 \<mapsto> Str [102, 111, 111]], brk := 2\<rparr>"

definition ex_short :: mod_loadinfo_s where
  "ex_short = \<lparr>filedata = [0, 97, 0], filelen = 3,
               shdr = [\<lparr>sh_type = 3, sh_addr = 0, sh_offset = 0, sh_size = 3, sh_link = 0\<rparr>],
               iobuffer = [0, 0, 0, 0], exported = 0\<rparr>"

definition ex_long :: mod_loadinfo_s where
  "ex_long = \<lparr>filedata = [0, 97, 98, 99, 100, 101, 102, 0], filelen = 8, shdr = [],
              iobuffer = [0, 0, 0, 0], exported = 0\<rparr>"

definition ex_builtin :: globals where
  "ex_builtin = ex_heap\<lparr>objs := [1 \<mapsto> Tab [\<lparr>sym_name = 2, sym_value = 0x100\<rparr>,
                                            \<lparr>sym_name = 3, sym_value = 0x200\<rparr>],
                                  2 \<mapsto> Str [97, 98, 99, 100, 99, 100, 101, 102],
                                  3 \<mapsto> Str [97, 98, 99, 100, 101, 102]],
                         brk := 3, g_symtab := 1, g_nsymbols := 2\<rparr>"

text \<open>
  The name "abcdef" exported by two loaded modules, \<open>ex_modA\<close> the newer one; a
  built-in table with the name "abcdef" only; a built-in table with the name
  "abcdcdef" only.
\<close>

definition ex_exporters :: globals where
  "ex_exporters = ex_heap\<lparr>objs := [1 \<mapsto> Tab [\<lparr>sym_name = 2, sym_value = 0x1000\<rparr>],
                                    2 \<mapsto> Str [97, 98, 99, 100, 101, 102],
                                    3 \<mapsto> Tab [\<lparr>sym_name = 4, sym_value = 0x2000\<rparr>],
                                    4 \<mapsto> Str [97, 98, 99, 100, 101, 102]],
                           brk := 4, g_mod_registry := [ex_modA, ex_modB]\<rparr>"

definition ex_builtin_ondisk :: globals where
  "ex_builtin_ondisk = ex_heap\<lparr>objs := [1 \<mapsto> Tab [\<lparr>sym_name = 2, sym_value = 0x200\<rparr>],
                                         2 \<mapsto> Str [97, 98, 99, 100, 101, 102]],
                                brk := 2, g_symtab := 1, g_nsymbols := 1\<rparr>"

definition ex_builtin_misread :: globals where
  "ex_builtin_misread = ex_heap\<lparr>objs := [1 \<mapsto> Tab [\<lparr>sym_name = 2, sym_value = 0x100\<rparr>],
                                          2 \<mapsto> Str [97, 98, 99, 100, 99, 100, 101, 102]],
                                 brk := 2, g_symtab := 1, g_nsymbols := 1\<rparr>"

section \<open>Properties\<close>

lemmas ex_defs = ex_stray_def ex_exporters_def ex_builtin_ondisk_def ex_builtin_misread_def ex_heap_def ex_nosym_def ex_loadinfo_def ex_modA_def ex_modB_def ex_modC_def
  ex_modp_def ex_globals_def ex_undef_def ex_symsec_def ex_named_def ex_mod_loaded_def
  ex_heap_loaded_def ex_short_def ex_long_def ex_builtin_def

lemmas eval_defs = modlib_symname_def symname_loop.simps buflen_def modlib_read_def
  modlib_reallocbuffer_def cstring_def Let_def symtab_findbyname_def table_at_def name_at_def
  SHN_UNDEF_def SHN_ABS_def SHN_COMMON_def sizeof_Elf_Sym_def
  modlib_symvalue_def modlib_registry_foreach_def
  modlib_symcallback_def modlib_depend_def SYM_FOUND_def SYM_NOT_FOUND_def
  modlib_freesymtab_def lib_free_def lib_malloc_def strdup_def tab_store_def
  modlib_insertsymtab_def

subsection \<open>The indexed symbol reader\<close>

lemma modlib_readsym_negative:
  "index < 0 \<Longrightarrow> modlib_readsym loadinfo index esym symtab = (Inl EINVAL, esym)"
  by (simp add: modlib_readsym_def)

lemma modlib_readsym_beyond:
  "int (unat (sh_size symtab) div sizeof_Elf_Sym) < index \<Longrightarrow>
   modlib_readsym loadinfo index esym symtab = (Inl EINVAL, esym)"
  by (simp add: modlib_readsym_def)

lemma modlib_readsym_zero:
  assumes "unat (sh_offset symtab) + sizeof_Elf_Sym \<le> length (filedata loadinfo)"
  shows "modlib_readsym loadinfo 0 esym symtab =
         (OK, sym_of_bytes (take sizeof_Elf_Sym
                (drop (unat (sh_offset symtab)) (filedata loadinfo))))"
  using assms by (simp add: modlib_readsym_def modlib_read_def)

lemma modlib_readsym_at_count:
  assumes "n = unat (sh_size symtab) div sizeof_Elf_Sym"
  shows "fst (modlib_readsym loadinfo (int n) esym symtab) \<noteq> Inl EINVAL"
  using assms
  by (simp add: modlib_readsym_def modlib_read_def Let_def split: sum.splits)

text \<open>
  C1.  The reader is to fail with corrupt-format (\<open>EINVAL\<close>) for every index that is
  negative or at least the entry count of the section.  The source compares with
  \<^verbatim>\<open>index > sh_size / sizeof(Elf_Sym)\<close>, so the index equal to the entry count
  passes the check.  For a section of one entry (16 bytes at offset 0) in a file
  of 32 bytes, index 1 is not rejected: the reader returns OK and hands back the
  16 bytes that follow the symbol table as if they were a symbol.
\<close>

theorem modlib_readsym_index_eq_count_accepted:
  "unat (sh_size (ex_symsec 16)) div sizeof_Elf_Sym = 1 \<and>
   modlib_readsym
     \<lparr>filedata = replicate 16 0 @ replicate 16 1, filelen = 32, shdr = [],
      iobuffer = [], exported = 0\<rparr>
     1 ex_nosym (ex_symsec 16)
   = (OK, \<lparr>st_name = 0x01010101, st_value = 0x01010101, st_size = 0x01010101,
           st_info = 1, st_other = 1, st_shndx = 0x0101\<rparr>)"
  by (simp add: modlib_readsym_def modlib_read_def sizeof_Elf_Sym_def sym_of_bytes_def
      le32_def le16_def Let_def ex_symsec_def ex_nosym_def)

subsection \<open>The name reader\<close>

lemma modlib_reallocbuffer_frame:
  "modlib_reallocbuffer loadinfo n g = (r, loadinfo', g') \<Longrightarrow>
   g' = g\<lparr>avail := avail g'\<rparr> \<and> loadinfo' = loadinfo\<lparr>iobuffer := iobuffer loadinfo'\<rparr>"
  by (auto simp: modlib_reallocbuffer_def split: list.splits bool.splits)

lemma symname_loop_EINVAL:
  assumes "filelen loadinfo < offset + (buflen loadinfo - bytesread)"
    and "filelen loadinfo \<le> offset"
  shows "symname_loop incr loadinfo g offset bytesread = Some (Inl EINVAL, loadinfo, g)"
  unfolding symname_loop.simps [of incr loadinfo g offset bytesread]
  by (simp only: assms simp_thms if_True)

lemma symname_loop_EIO:
  assumes "\<not> (filelen loadinfo < offset + (buflen loadinfo - bytesread) \<and>
              filelen loadinfo \<le> offset)"
    and "readlen = (if filelen loadinfo < offset + (buflen loadinfo - bytesread)
                    then filelen loadinfo - offset else buflen loadinfo - bytesread)"
    and "modlib_read loadinfo readlen offset = Inl e"
  shows "symname_loop incr loadinfo g offset bytesread = Some (Inl e, loadinfo, g)"
proof -
  have c: "(filelen loadinfo < offset + (buflen loadinfo - bytesread) \<and>
            filelen loadinfo \<le> offset) = False"
    using assms(1) by simp
  show ?thesis
    unfolding symname_loop.simps [of incr loadinfo g offset bytesread]
    using assms(3) [unfolded assms(2)]
    by (simp only: c if_False Let_def sum.case)
qed

lemma symname_loop_unfold:
  assumes "\<not> (filelen loadinfo < offset + (buflen loadinfo - bytesread) \<and>
              filelen loadinfo \<le> offset)"
    and "readlen = (if filelen loadinfo < offset + (buflen loadinfo - bytesread)
                    then filelen loadinfo - offset else buflen loadinfo - bytesread)"
    and "modlib_read loadinfo readlen offset = Inr bs"
    and "loadinfo1 = loadinfo\<lparr>iobuffer :=
           take bytesread (iobuffer loadinfo) @ bs @
           drop (bytesread + readlen) (iobuffer loadinfo)\<rparr>"
  shows "symname_loop incr loadinfo g offset bytesread =
         (if 0 \<in> set bs then Some (OK, loadinfo1, g)
          else (case modlib_reallocbuffer loadinfo1 incr g of
                  (Inl e, loadinfo2, g2) \<Rightarrow> Some (Inl e, loadinfo2, g2)
                | (Inr u, loadinfo2, g2) \<Rightarrow>
                    symname_loop incr loadinfo2 g2 (offset + incr) (bytesread + readlen)))"
proof -
  note body = symname_loop.simps [of incr loadinfo g offset bytesread]
  show ?thesis
  proof (cases "filelen loadinfo < offset + (buflen loadinfo - bytesread)")
    case True
    with assms have r: "readlen = filelen loadinfo - offset" by simp
    from assms(1) True have "\<not> filelen loadinfo \<le> offset" by simp
    have c: "(filelen loadinfo \<le> offset) = False" using assms(1) True by simp
    have t: "(filelen loadinfo < offset + (buflen loadinfo - bytesread)) = True"
      using True by simp
    show ?thesis
      unfolding body using assms(3) [unfolded r]
      by (simp only: c t simp_thms if_True if_False Let_def sum.case assms(4) r)
  next
    case False
    with assms have r: "readlen = buflen loadinfo - bytesread" by simp
    have t: "(filelen loadinfo < offset + (buflen loadinfo - bytesread)) = False"
      using False by simp
    show ?thesis
      unfolding body using assms(3) [unfolded r]
      by (simp only: t simp_thms if_True if_False Let_def sum.case assms(4) r)
  qed
qed

text \<open>
  Whatever the name reader returns, it has changed nothing but the buffer of the
  load session and the allocator's record of the requests made.
\<close>

lemma symname_loop_frame_aux:
  assumes "symname_loop incr loadinfo g offset bytesread = Some y"
  shows "(\<exists>a. snd (snd y) = g\<lparr>avail := a\<rparr>) \<and>
         (\<exists>b. fst (snd y) = loadinfo\<lparr>iobuffer := b\<rparr>)"
proof (rule symname_loop.raw_induct
    [where P = "\<lambda>incr loadinfo g offset bytesread y.
       (\<exists>a. snd (snd y) = g\<lparr>avail := a\<rparr>) \<and>
       (\<exists>b. fst (snd y) = loadinfo\<lparr>iobuffer := b\<rparr>)", OF _ assms], goal_cases)
  case (1 loop incr loadinfo g offset bytesread y)
  note IH = 1(1) and body = 1(2)
  have g_id: "\<exists>a. g = g\<lparr>avail := a\<rparr>" by (rule exI [of _ "avail g"]) simp
  have l_id: "\<exists>b. loadinfo = loadinfo\<lparr>iobuffer := b\<rparr>"
    by (rule exI [of _ "iobuffer loadinfo"]) simp
  let ?c = "filelen loadinfo < offset + (buflen loadinfo - bytesread) \<and>
            filelen loadinfo \<le> offset"
  let ?readlen = "if filelen loadinfo < offset + (buflen loadinfo - bytesread)
                  then filelen loadinfo - offset else buflen loadinfo - bytesread"
  show ?case
  proof (cases ?c)
    case True
    then have "?c = True" by simp
    with body have "y = (Inl EINVAL, loadinfo, g)" by (simp only: if_True option.inject)
    with g_id l_id show ?thesis by simp
  next
    case False
    then have c: "?c = False" by simp
    show ?thesis
    proof (cases "modlib_read loadinfo ?readlen offset")
      case (Inl e)
      with body have "y = (Inl e, loadinfo, g)"
        by (simp only: c if_False Let_def sum.case option.inject)
      with g_id l_id show ?thesis by simp
    next
      case (Inr bs)
      let ?loadinfo1 = "loadinfo\<lparr>iobuffer :=
        take bytesread (iobuffer loadinfo) @ bs @ drop (bytesread + ?readlen) (iobuffer loadinfo)\<rparr>"
      from body Inr have eq:
        "(if 0 \<in> set bs then Some (OK, ?loadinfo1, g)
          else (case modlib_reallocbuffer ?loadinfo1 incr g of
                  (Inl e, loadinfo2, g2) \<Rightarrow> Some (Inl e, loadinfo2, g2)
                | (Inr u, loadinfo2, g2) \<Rightarrow>
                    loop incr loadinfo2 g2 (offset + incr) (bytesread + ?readlen))) = Some y"
        by (simp only: c if_False Let_def sum.case)
      show ?thesis
      proof (cases "0 \<in> set bs")
        case True
        with eq have "y = (OK, ?loadinfo1, g)" by (simp only: if_True option.inject)
        with g_id show ?thesis by auto
      next
        case False
        obtain r loadinfo2 g2 where re: "modlib_reallocbuffer ?loadinfo1 incr g = (r, loadinfo2, g2)"
          by (cases "modlib_reallocbuffer ?loadinfo1 incr g") auto
        from modlib_reallocbuffer_frame [OF re]
        have f2: "g2 = g\<lparr>avail := avail g2\<rparr>" "loadinfo2 = ?loadinfo1\<lparr>iobuffer := iobuffer loadinfo2\<rparr>"
          by auto
        then have f3: "loadinfo2 = loadinfo\<lparr>iobuffer := iobuffer loadinfo2\<rparr>" by simp
        show ?thesis
        proof (cases r)
          case (Inl e)
          with eq False re have "y = (Inl e, loadinfo2, g2)"
            by (simp only: if_False prod.case sum.case option.inject)
          with f2(1) f3 show ?thesis by auto
        next
          case (Inr u)
          with eq False re have "loop incr loadinfo2 g2 (offset + incr) (bytesread + ?readlen) = Some y"
            by (simp only: if_False prod.case sum.case)
          from IH [OF this] obtain a b where
            ab: "snd (snd y) = g2\<lparr>avail := a\<rparr>" "fst (snd y) = loadinfo2\<lparr>iobuffer := b\<rparr>" by auto
          have "snd (snd y) = g\<lparr>avail := a\<rparr>" by (subst ab(1), subst f2(1)) simp
          moreover have "fst (snd y) = loadinfo\<lparr>iobuffer := b\<rparr>" by (subst ab(2), subst f3) simp
          ultimately show ?thesis by blast
        qed
      qed
    qed
  qed
qed

lemma modlib_symname_frame:
  assumes "modlib_symname incr loadinfo esym sh_off g = Some (r, loadinfo1, g1)"
  shows "objs g1 = objs g \<and> brk g1 = brk g \<and> faults g1 = faults g \<and>
         g_mod_registry g1 = g_mod_registry g \<and> g_symtab g1 = g_symtab g \<and>
         g_nsymbols g1 = g_nsymbols g \<and> depends g1 = depends g \<and>
         filedata loadinfo1 = filedata loadinfo \<and> filelen loadinfo1 = filelen loadinfo \<and>
         shdr loadinfo1 = shdr loadinfo \<and> exported loadinfo1 = exported loadinfo"
proof (cases "st_name esym = 0")
  case True
  with assms show ?thesis by (simp add: modlib_symname_def)
next
  case False
  with assms have "symname_loop incr loadinfo g (unat (sh_off + st_name esym)) 0 =
                   Some (r, loadinfo1, g1)"
    by (simp add: modlib_symname_def)
  from symname_loop_frame_aux [OF this] obtain a b where
    "g1 = g\<lparr>avail := a\<rparr>" "loadinfo1 = loadinfo\<lparr>iobuffer := b\<rparr>" by auto
  then show ?thesis by simp
qed

text \<open>The reader returns whenever the increment is positive.\<close>

lemma symname_loop_returns:
  "0 < incr \<Longrightarrow> \<exists>y. symname_loop incr loadinfo g offset bytesread = Some y"
proof (induction "Suc (filelen loadinfo) - offset" arbitrary: loadinfo g offset bytesread rule: less_induct)
  case less
  let ?c = "filelen loadinfo < offset + (buflen loadinfo - bytesread) \<and>
            filelen loadinfo \<le> offset"
  let ?readlen = "if filelen loadinfo < offset + (buflen loadinfo - bytesread)
                  then filelen loadinfo - offset else buflen loadinfo - bytesread"
  show ?case
  proof (cases ?c)
    case True
    then show ?thesis by (simp add: symname_loop_EINVAL)
  next
    case False
    then have le: "offset \<le> filelen loadinfo" by auto
    show ?thesis
    proof (cases "modlib_read loadinfo ?readlen offset")
      case (Inl e)
      from symname_loop_EIO [OF False refl Inl] show ?thesis by simp
    next
      case (Inr bs)
      let ?loadinfo1 = "loadinfo\<lparr>iobuffer :=
        take bytesread (iobuffer loadinfo) @ bs @ drop (bytesread + ?readlen) (iobuffer loadinfo)\<rparr>"
      note eq = symname_loop_unfold [OF False refl Inr refl, of incr g]
      show ?thesis
      proof (cases "0 \<in> set bs")
        case True
        with eq show ?thesis by simp
      next
        case nz: False
        obtain r loadinfo2 g2 where re: "modlib_reallocbuffer ?loadinfo1 incr g = (r, loadinfo2, g2)"
          by (cases "modlib_reallocbuffer ?loadinfo1 incr g") auto
        from modlib_reallocbuffer_frame [OF re]
        have "loadinfo2 = ?loadinfo1\<lparr>iobuffer := iobuffer loadinfo2\<rparr>" by simp
        then have "filelen loadinfo2 = filelen (?loadinfo1\<lparr>iobuffer := iobuffer loadinfo2\<rparr>)"
          by simp
        then have fl: "filelen loadinfo2 = filelen loadinfo" by simp
        show ?thesis
        proof (cases r)
          case (Inl e)
          with eq nz re show ?thesis by simp
        next
          case (Inr u)
          have "Suc (filelen loadinfo2) - (offset + incr) < Suc (filelen loadinfo) - offset"
            using fl le \<open>0 < incr\<close> by simp
          from less.hyps [OF this \<open>0 < incr\<close>, of g2 "bytesread + ?readlen"] eq nz re Inr
          show ?thesis by simp
        qed
      qed
    qed
  qed
qed

lemma modlib_symname_returns:
  "0 < incr \<Longrightarrow> \<exists>y. modlib_symname incr loadinfo esym sh_off g = Some y"
  using symname_loop_returns [of incr loadinfo g "unat (sh_off + st_name esym)" 0]
  by (cases "st_name esym = 0") (simp_all add: modlib_symname_def)

text \<open>
  When the buffer has the size of the increment on entry, the file is as long as
  \<^verbatim>\<open>filelen\<close> says and memory is available, the reader is right for a name of any
  length: it returns OK, and the string in the buffer is the name on disk.
\<close>

lemma cstring_terminated: "0 \<notin> set name \<Longrightarrow> cstring (name @ 0 # xs) = name"
proof -
  assume "0 \<notin> set name"
  then have "takeWhile (\<lambda>b. b \<noteq> 0) name = name"
    by (auto simp: takeWhile_eq_all_conv)
  then show ?thesis by (simp add: cstring_def takeWhile_tail)
qed

lemma cstring_join:
  assumes "0 \<notin> set name" and "take br buf = take br name"
  shows "cstring (take br buf @ (drop br name @ 0 # xs) @ ys) = name"
proof -
  have "take br buf @ (drop br name @ 0 # xs) @ ys =
        (take br name @ drop br name) @ 0 # (xs @ ys)"
    unfolding assms(2) by (simp only: append_assoc append_Cons)
  then show ?thesis
    using cstring_terminated [OF assms(1), of "xs @ ys"] by (simp only: append_take_drop_id)
qed

lemma modlib_reallocbuffer_ok:
  "False \<notin> set (avail g) \<Longrightarrow>
   modlib_reallocbuffer loadinfo n g =
     (OK, loadinfo\<lparr>iobuffer := iobuffer loadinfo @ replicate n 0\<rparr>, g\<lparr>avail := tl (avail g)\<rparr>)"
  by (cases "avail g") (auto simp: modlib_reallocbuffer_def split: bool.splits)

lemma symname_loop_aligned:
  assumes "0 < incr"
    and "filelen loadinfo = length (filedata loadinfo)"
    and "drop off (filedata loadinfo) = name @ 0 # rest"
    and "0 \<notin> set name"
    and "False \<notin> set (avail g)"
    and "length (iobuffer loadinfo) = br + incr"
    and "take br (iobuffer loadinfo) = take br name"
    and "br \<le> length name"
  shows "\<exists>loadinfo1 g1. symname_loop incr loadinfo g (off + br) br = Some (OK, loadinfo1, g1) \<and>
           cstring (iobuffer loadinfo1) = name"
  using assms
proof (induction "length name - br" arbitrary: loadinfo g br rule: less_induct)
  case less
  let ?fd = "filedata loadinfo"
  let ?buf = "iobuffer loadinfo"
  let ?o = "off + br"
  have len: "length ?fd - off = length name + 1 + length rest"
    using arg_cong [OF less.prems(3), of length] by simp
  then have inside: "off + length name < length ?fd" by simp
  have tail: "drop ?o ?fd = drop br name @ 0 # rest"
    using less.prems(3,8) by (simp add: add.commute [of off br] flip: drop_drop)
  have bl: "buflen loadinfo - br = incr" using less.prems(6) by (simp add: buflen_def)
  have nc: "\<not> (filelen loadinfo < ?o + (buflen loadinfo - br) \<and> filelen loadinfo \<le> ?o)"
    using inside less.prems(2,8) by simp
  let ?readlen = "if filelen loadinfo < ?o + (buflen loadinfo - br)
                  then filelen loadinfo - ?o else buflen loadinfo - br"
  note join = cstring_join [OF less.prems(4,7)]
  show ?case
  proof (cases "filelen loadinfo < ?o + incr")
    case True
    then have rl: "length ?fd - ?o = ?readlen" using bl less.prems(2) by simp
    have "take (length ?fd - ?o) (drop ?o ?fd) = drop ?o ?fd" by simp
    moreover have "?o + (length ?fd - ?o) \<le> length ?fd"
      using inside less.prems(8) by simp
    ultimately have rd: "modlib_read loadinfo (length ?fd - ?o) ?o =
                         Inr (drop br name @ 0 # rest)"
      unfolding modlib_read_def tail [symmetric] by (simp only: if_True)
    note eq = symname_loop_unfold [OF nc rl rd refl, of incr g]
    have "cstring (take br ?buf @ (drop br name @ 0 # rest) @
                   drop (br + (length ?fd - ?o)) ?buf) = name"
      by (rule join)
    with eq show ?thesis by simp
  next
    case False
    then have rl: "incr = ?readlen" using bl by simp
    have fits: "?o + incr \<le> length ?fd" using False less.prems(2) by simp
    have rd: "modlib_read loadinfo incr ?o = Inr (take incr (drop br name @ 0 # rest))"
      using fits tail by (simp add: modlib_read_def)
    note eq = symname_loop_unfold [OF nc rl rd refl, of incr g]
    show ?thesis
    proof (cases "length name < br + incr")
      case True
      then have bs: "take incr (drop br name @ 0 # rest) =
                     drop br name @ 0 # take (incr - Suc (length name - br)) rest"
        using less.prems(8) by (simp add: take_Cons')
      have "cstring (take br ?buf @ take incr (drop br name @ 0 # rest) @
                     drop (br + incr) ?buf) = name"
        unfolding bs by (rule join)
      moreover have "0 \<in> set (take incr (drop br name @ 0 # rest))" unfolding bs by simp
      ultimately show ?thesis using eq by simp
    next
      case long: False
      then have bs: "take incr (drop br name @ 0 # rest) = take incr (drop br name)"
        by simp
      have nz: "0 \<notin> set (take incr (drop br name))"
        using less.prems(4) by (meson in_set_dropD in_set_takeD)
      let ?l1 = "loadinfo\<lparr>iobuffer := take br ?buf @ take incr (drop br name) @
                                         drop (br + incr) ?buf\<rparr>"
      let ?l2 = "?l1\<lparr>iobuffer := iobuffer ?l1 @ replicate incr 0\<rparr>"
      let ?g2 = "g\<lparr>avail := tl (avail g)\<rparr>"
      have step: "symname_loop incr loadinfo g ?o br =
                  symname_loop incr ?l2 ?g2 (?o + incr) (br + incr)"
        unfolding eq [unfolded bs] modlib_reallocbuffer_ok [OF less.prems(5), of ?l1 incr]
        using nz by (simp only: if_False prod.case sum.case)
      have b1: "iobuffer ?l2 = take (br + incr) name @ replicate incr 0"
        using less.prems(6,7) long by (simp add: take_add)
      have m: "length name - (br + incr) < length name - br"
        using long \<open>0 < incr\<close> by simp
      have av: "False \<notin> set (avail ?g2)"
        using less.prems(5) by (cases "avail g") auto
      have "\<exists>loadinfo1 g1. symname_loop incr ?l2 ?g2 (off + (br + incr)) (br + incr) =
              Some (OK, loadinfo1, g1) \<and> cstring (iobuffer loadinfo1) = name"
      proof (rule less.hyps [OF m \<open>0 < incr\<close> _ _ less.prems(4) av])
        show "filelen ?l2 = length (filedata ?l2)" using less.prems(2) by simp
        show "drop off (filedata ?l2) = name @ 0 # rest" using less.prems(3) by simp
        show "length (iobuffer ?l2) = br + incr + incr" using long unfolding b1 by simp
        show "take (br + incr) (iobuffer ?l2) = take (br + incr) name"
          using long unfolding b1 by simp
        show "br + incr \<le> length name" using long by simp
      qed
      with step show ?thesis by (simp add: add.assoc)
    qed
  qed
qed

lemma modlib_symname_aligned:
  assumes "0 < incr"
    and "buflen loadinfo = incr"
    and "filelen loadinfo = length (filedata loadinfo)"
    and "st_name esym \<noteq> 0"
    and "drop (unat (sh_off + st_name esym)) (filedata loadinfo) = name @ 0 # rest"
    and "0 \<notin> set name"
    and "False \<notin> set (avail g)"
  shows "\<exists>loadinfo1 g1. modlib_symname incr loadinfo esym sh_off g = Some (OK, loadinfo1, g1) \<and>
           cstring (iobuffer loadinfo1) = name"
  using symname_loop_aligned [OF assms(1,3,5,6,7), of 0] assms(2,4)
  by (simp add: modlib_symname_def buflen_def)

text \<open>
  C5.  A name longer than the buffer is to end up in the buffer as the bytes on
  disk from the name's offset to the terminator.  After each chunk the source
  advances the file offset by \<^verbatim>\<open>CONFIG_MODLIB_BUFFERINCR\<close> and not by the number of
  bytes it has read, so the next chunk continues the previous one only when the
  buffer had exactly that size on entry.  With an increment of 2 and a buffer of 4
  bytes, the name "abcdef" at offset 1 is read as "abcd", then "cd" from offset
  3, "ef" from offset 5 and the terminator from offset 7: the reader returns OK
  with "abcdcdef" in the buffer.  The same happens with equal configured sizes
  once an earlier name has made the buffer grow.
\<close>

theorem modlib_symname_chunks_overlap:
  "modlib_symname 2 ex_long (ex_undef 1) 0 ex_heap =
     Some (OK, ex_long\<lparr>iobuffer := [97, 98, 99, 100, 99, 100, 101, 102, 0, 0]\<rparr>, ex_heap) \<and>
   cstring [97, 98, 99, 100, 99, 100, 101, 102, 0, 0] = [97, 98, 99, 100, 99, 100, 101, 102] \<and>
   cstring (drop (unat (0 + st_name (ex_undef 1))) (filedata ex_long)) =
     [97, 98, 99, 100, 101, 102]"
  by (simp add: ex_defs eval_defs)

subsection \<open>The value of a symbol\<close>

lemma symtab_findbyname_objs:
  "objs g1 = objs g \<Longrightarrow> symtab_findbyname g1 = symtab_findbyname g"
proof -
  assume eq: "objs g1 = objs g"
  then have n: "name_at g1 = name_at g" and t: "table_at g1 = table_at g"
    by (intro ext, simp add: name_at_def table_at_def)+
  show ?thesis unfolding symtab_findbyname_def n t ..
qed

lemma modlib_symcallback_miss:
  assumes "symtab_findbyname g (exports m) (ei_name ei) (nexports m) = None"
    and "ei_symbol ei = None"
  shows "modlib_symcallback m ei g = (Inr 0, ei, g)"
proof -
  have "ei\<lparr>ei_symbol := None\<rparr> = ei" using assms(2) by (cases ei) simp
  with assms show ?thesis
    by (simp add: modlib_symcallback_def Let_def SYM_NOT_FOUND_def)
qed

lemma modlib_symcallback_hit:
  assumes "symtab_findbyname g (exports w) (ei_name ei) (nexports w) = Some e"
  shows "modlib_symcallback w ei g =
         (case modlib_depend (ei_modp ei) w g of
            (Inl err, g1) \<Rightarrow> (Inl err, ei\<lparr>ei_symbol := Some e\<rparr>, g1)
          | (Inr u, g1) \<Rightarrow> (Inr SYM_FOUND, ei\<lparr>ei_symbol := Some e\<rparr>, g1))"
  using assms by (simp add: modlib_symcallback_def Let_def)

lemma registry_walk_miss:
  assumes "\<forall>m\<in>set ms. symtab_findbyname g (exports m) (ei_name ei) (nexports m) = None"
    and "ei_symbol ei = None"
  shows "registry_walk modlib_symcallback ms ei g = (Inr 0, ei, g)"
  using assms by (induction ms) (simp_all add: modlib_symcallback_miss)

lemma registry_walk_hit:
  assumes "\<forall>m\<in>set newer. symtab_findbyname g (exports m) (ei_name ei) (nexports m) = None"
    and "ei_symbol ei = None"
    and "symtab_findbyname g (exports w) (ei_name ei) (nexports w) = Some e"
  shows "registry_walk modlib_symcallback (newer @ w # older) ei g =
         (case modlib_depend (ei_modp ei) w g of
            (Inl err, g1) \<Rightarrow> (Inl err, ei\<lparr>ei_symbol := Some e\<rparr>, g1)
          | (Inr u, g1) \<Rightarrow> (Inr SYM_FOUND, ei\<lparr>ei_symbol := Some e\<rparr>, g1))"
  using assms
proof (induction newer)
  case Nil
  then show ?case
    by (simp add: modlib_symcallback_hit SYM_FOUND_def split: prod.splits sum.splits)
next
  case (Cons m newer)
  then show ?case by (simp add: modlib_symcallback_miss)
qed

lemma SHN_distinct:
  "SHN_UNDEF \<noteq> SHN_COMMON" "SHN_UNDEF \<noteq> SHN_ABS" "SHN_ABS \<noteq> SHN_COMMON"
  by (simp_all add: SHN_UNDEF_def SHN_COMMON_def SHN_ABS_def)

lemma modlib_symvalue_returns:
  assumes "0 < incr"
  shows "\<exists>y. modlib_symvalue incr modp loadinfo esym sh_off g = Some y"
proof -
  from modlib_symname_returns [OF assms] obtain r loadinfo1 g1 where
    "modlib_symname incr loadinfo esym sh_off g = Some (r, loadinfo1, g1)"
    by (metis prod_cases3)
  then show ?thesis
    by (cases r) (simp_all add: modlib_symvalue_def Let_def split: prod.splits sum.splits option.splits)
qed

text \<open>
  The search, for the string that the name reader has left in the buffer.  The
  registry lists the newest module first.  If \<open>w\<close> is the first module in it that
  exports that string and the dependency is registered, the symbol gets the value
  of \<open>w\<close>'s export added and one edge is recorded, from the resolving module to \<open>w\<close>.
  If no module exports the string, the built-in table decides and no edge is
  recorded.
\<close>

lemma symvalue_search_first_exporter:
  assumes "st_shndx esym = SHN_UNDEF"
    and "modlib_symname incr loadinfo esym sh_off g = Some (OK, loadinfo1, g1)"
    and "g_mod_registry g = newer @ w # older"
    and "\<forall>m\<in>set newer. symtab_findbyname g (exports m) (cstring (iobuffer loadinfo1))
                          (nexports m) = None"
    and "symtab_findbyname g (exports w) (cstring (iobuffer loadinfo1)) (nexports w) = Some e"
    and "modlib_depend modp w g1 = (OK, g2)"
  shows "modlib_symvalue incr modp loadinfo esym sh_off g =
           Some (OK, esym\<lparr>st_value := st_value esym + sym_value e\<rparr>, loadinfo1, g2) \<and>
         depends g2 = depends g @ [(self modp, self w)]"
proof -
  note fr = modlib_symname_frame [OF assms(2)]
  have fb: "symtab_findbyname g1 = symtab_findbyname g"
    using symtab_findbyname_objs [of g1 g] fr by simp
  let ?ei = "\<lparr>ei_name = cstring (iobuffer loadinfo1), ei_modp = modp, ei_symbol = None\<rparr>"
  have "registry_walk modlib_symcallback (newer @ w # older) ?ei g1 =
        (Inr SYM_FOUND, ?ei\<lparr>ei_symbol := Some e\<rparr>, g2)"
    using registry_walk_hit [of newer g1 ?ei w e older] assms(4,5,6) fb by simp
  then have walk: "modlib_registry_foreach modlib_symcallback ?ei g1 =
        (Inr SYM_FOUND, ?ei\<lparr>ei_symbol := Some e\<rparr>, g2)"
    using fr assms(3) by (simp add: modlib_registry_foreach_def)
  have val: "modlib_symvalue incr modp loadinfo esym sh_off g =
           Some (OK, esym\<lparr>st_value := st_value esym + sym_value e\<rparr>, loadinfo1, g2)"
    using assms(1,2) walk SHN_distinct by (simp add: modlib_symvalue_def Let_def)
  have "depends g2 = depends g1 @ [(self modp, self w)]"
    using assms(6) by (auto simp: modlib_depend_def split: list.splits bool.splits)
  with fr val show ?thesis by simp
qed

lemma symvalue_search_no_exporter:
  assumes "st_shndx esym = SHN_UNDEF"
    and "modlib_symname incr loadinfo esym sh_off g = Some (OK, loadinfo1, g1)"
    and "\<forall>m\<in>set (g_mod_registry g).
           symtab_findbyname g (exports m) (cstring (iobuffer loadinfo1)) (nexports m) = None"
  shows "modlib_symvalue incr modp loadinfo esym sh_off g =
           Some (case symtab_findbyname g (g_symtab g) (cstring (iobuffer loadinfo1))
                        (g_nsymbols g) of
                   None \<Rightarrow> (Inl ENOENT, esym, loadinfo1, g1)
                 | Some e \<Rightarrow> (OK, esym\<lparr>st_value := st_value esym + sym_value e\<rparr>,
                              loadinfo1, g1)) \<and>
         depends g1 = depends g"
proof -
  note fr = modlib_symname_frame [OF assms(2)]
  have fb: "symtab_findbyname g1 = symtab_findbyname g"
    using symtab_findbyname_objs [of g1 g] fr by simp
  let ?ei = "\<lparr>ei_name = cstring (iobuffer loadinfo1), ei_modp = modp, ei_symbol = None\<rparr>"
  have "registry_walk modlib_symcallback (g_mod_registry g) ?ei g1 = (Inr 0, ?ei, g1)"
    using registry_walk_miss [of "g_mod_registry g" g1 ?ei] assms(3) fb by simp
  then have walk: "modlib_registry_foreach modlib_symcallback ?ei g1 = (Inr 0, ?ei, g1)"
    using fr by (simp add: modlib_registry_foreach_def)
  have "modlib_symvalue incr modp loadinfo esym sh_off g =
           Some (case symtab_findbyname g (g_symtab g) (cstring (iobuffer loadinfo1))
                        (g_nsymbols g) of
                   None \<Rightarrow> (Inl ENOENT, esym, loadinfo1, g1)
                 | Some e \<Rightarrow> (OK, esym\<lparr>st_value := st_value esym + sym_value e\<rparr>,
                              loadinfo1, g1))"
    using assms(1,2) walk SHN_distinct fb fr
    by (simp add: modlib_symvalue_def Let_def split: option.splits)
  with fr show ?thesis by simp
qed

text \<open>
  C3.  An undefined symbol whose name is exported by two loaded modules is to get
  the export of the module loaded most recently, with a dependency edge to that
  module.  The search is made for the string in the buffer, and the name reader
  does not always put the name there (see C5).  Below, the name on disk is
  "abcdef", both loaded modules export "abcdef", the buffer has 4 bytes and the
  increment is 2: the reader leaves "abcdcdef", no module matches, the built-in table
  is empty, and \<^verbatim>\<open>modlib_symvalue\<close> returns \<open>ENOENT\<close> with no edge recorded.  With an
  increment of 4, the size of the buffer, the same call resolves the symbol to the
  export of the newer module, 0x1000, and records the edge to it.
\<close>

theorem modlib_symvalue_exported_name_unresolved:
  "cstring (drop (unat (0 + st_name (ex_undef 1))) (filedata ex_long)) =
     [97, 98, 99, 100, 101, 102] \<and>
   symtab_findbyname ex_exporters (exports ex_modA) [97, 98, 99, 100, 101, 102]
     (nexports ex_modA) = Some \<lparr>sym_name = 2, sym_value = 0x1000\<rparr> \<and>
   symtab_findbyname ex_exporters (exports ex_modB) [97, 98, 99, 100, 101, 102]
     (nexports ex_modB) = Some \<lparr>sym_name = 4, sym_value = 0x2000\<rparr> \<and>
   g_mod_registry ex_exporters = [ex_modA, ex_modB] \<and>
   modlib_symvalue 2 ex_modp ex_long (ex_undef 1) 0 ex_exporters =
     Some (Inl ENOENT, ex_undef 1,
           ex_long\<lparr>iobuffer := [97, 98, 99, 100, 99, 100, 101, 102, 0, 0]\<rparr>, ex_exporters) \<and>
   modlib_symvalue 4 ex_modp ex_long (ex_undef 1) 0 ex_exporters =
     Some (OK, (ex_undef 1)\<lparr>st_value := 0x1004\<rparr>,
           ex_long\<lparr>iobuffer := [97, 98, 99, 100, 101, 102, 0, 0]\<rparr>,
           ex_exporters\<lparr>depends := [(300, 200)]\<rparr>)"
  by (simp add: ex_defs eval_defs)

text \<open>
  C4.  When no loaded module exports the name of an undefined symbol, the built-in
  table is to decide: resolution succeeds if the table has the name and fails with
  unresolved-external if it has not.  The table is searched for the string in the
  buffer (see C5).  Below, no module is loaded, the name on disk is "abcdef", the
  buffer has 4 bytes and the increment is 2, so that the reader leaves "abcdcdef".
  With a built-in table that has "abcdef", \<^verbatim>\<open>modlib_symvalue\<close> returns \<open>ENOENT\<close>.  With
  a built-in table that has "abcdcdef" and not "abcdef", it returns OK and adds
  the value of that export, 0x100.
\<close>

theorem modlib_symvalue_fallback_wrong_name:
  "cstring (drop (unat (0 + st_name (ex_undef 1))) (filedata ex_long)) =
     [97, 98, 99, 100, 101, 102] \<and>
   symtab_findbyname ex_builtin_ondisk (g_symtab ex_builtin_ondisk)
     [97, 98, 99, 100, 101, 102] (g_nsymbols ex_builtin_ondisk) =
     Some \<lparr>sym_name = 2, sym_value = 0x200\<rparr> \<and>
   modlib_symvalue 2 ex_modp ex_long (ex_undef 1) 0 ex_builtin_ondisk =
     Some (Inl ENOENT, ex_undef 1,
           ex_long\<lparr>iobuffer := [97, 98, 99, 100, 99, 100, 101, 102, 0, 0]\<rparr>,
           ex_builtin_ondisk) \<and>
   symtab_findbyname ex_builtin_misread (g_symtab ex_builtin_misread)
     [97, 98, 99, 100, 101, 102] (g_nsymbols ex_builtin_misread) = None \<and>
   modlib_symvalue 2 ex_modp ex_long (ex_undef 1) 0 ex_builtin_misread =
     Some (OK, (ex_undef 1)\<lparr>st_value := 0x104\<rparr>,
           ex_long\<lparr>iobuffer := [97, 98, 99, 100, 99, 100, 101, 102, 0, 0]\<rparr>,
           ex_builtin_misread)"
  by (simp add: ex_defs eval_defs)

text \<open>
  C8.  Resolving the same undefined symbol twice, with the registry, the export
  tables and the built-in table unchanged, is to give the same value.  The first
  resolution below starts with a buffer of 4 bytes and an increment of 2; it reads
  the name "abcdef" as "abcdcdef" (see C5), finds that string in the built-in
  table and resolves the symbol to 0x104.  It leaves a buffer of 10 bytes.  The
  second resolution, of the same symbol in the session and the global state the
  first one has left, reads "abcdef" in one chunk and resolves the symbol to
  0x204.
\<close>

theorem modlib_symvalue_twice_differs:
  "modlib_symvalue 2 ex_modp ex_long (ex_undef 1) 0 ex_builtin =
     Some (OK, (ex_undef 1)\<lparr>st_value := 0x104\<rparr>,
           ex_long\<lparr>iobuffer := [97, 98, 99, 100, 99, 100, 101, 102, 0, 0]\<rparr>, ex_builtin) \<and>
   modlib_symvalue 2 ex_modp (ex_long\<lparr>iobuffer := [97, 98, 99, 100, 99, 100, 101, 102, 0, 0]\<rparr>)
       (ex_undef 1) 0 ex_builtin =
     Some (OK, (ex_undef 1)\<lparr>st_value := 0x204\<rparr>,
           ex_long\<lparr>iobuffer := [97, 98, 99, 100, 101, 102, 0, 102, 0, 0]\<rparr>, ex_builtin)"
  by (simp add: ex_defs eval_defs)

text \<open>
  C9.  For a section index that is none of the three reserved values the source
  reads the section header at that index without comparing the index with the
  number of headers: the call ends in OK for every index, with the \<^verbatim>\<open>sh_addr\<close> read
  added to the value of the symbol.  The address added is that of a section
  header, and the same whatever the memory behind the array holds, exactly when
  the index is less than the number of section headers; for any other index it is
  taken from the memory behind the array.
\<close>

theorem modlib_symvalue_section_index_unchecked:
  assumes "st_shndx esym \<noteq> SHN_COMMON" "st_shndx esym \<noteq> SHN_ABS" "st_shndx esym \<noteq> SHN_UNDEF"
  shows "(\<forall>h. modlib_symvalue incr modp loadinfo esym sh_off (g\<lparr>after_shdr := h\<rparr>) =
              Some (OK, esym\<lparr>st_value := st_value esym +
                      (if unat (st_shndx esym) < length (shdr loadinfo)
                       then sh_addr (shdr loadinfo ! unat (st_shndx esym))
                       else sh_addr (h (unat (st_shndx esym) - length (shdr loadinfo))))\<rparr>,
                    loadinfo, g\<lparr>after_shdr := h\<rparr>)) \<and>
         ((\<exists>a. \<forall>h. modlib_symvalue incr modp loadinfo esym sh_off (g\<lparr>after_shdr := h\<rparr>) =
                   Some (OK, esym\<lparr>st_value := st_value esym + a\<rparr>, loadinfo,
                         g\<lparr>after_shdr := h\<rparr>)) =
          (unat (st_shndx esym) < length (shdr loadinfo)))"
proof -
  let ?i = "unat (st_shndx esym)"
  have run: "modlib_symvalue incr modp loadinfo esym sh_off (g\<lparr>after_shdr := h\<rparr>) =
        Some (OK, esym\<lparr>st_value := st_value esym +
                (if ?i < length (shdr loadinfo) then sh_addr (shdr loadinfo ! ?i)
                 else sh_addr (h (?i - length (shdr loadinfo))))\<rparr>,
              loadinfo, g\<lparr>after_shdr := h\<rparr>)" for h
    using assms by (simp add: modlib_symvalue_def shdr_read_def)
  have fixed: "\<exists>a. \<forall>h. modlib_symvalue incr modp loadinfo esym sh_off (g\<lparr>after_shdr := h\<rparr>) =
                 Some (OK, esym\<lparr>st_value := st_value esym + a\<rparr>, loadinfo,
                       g\<lparr>after_shdr := h\<rparr>)"
    if "?i < length (shdr loadinfo)"
    using that run by (intro exI [of _ "sh_addr (shdr loadinfo ! ?i)"]) simp
  have varies: False
    if out: "\<not> ?i < length (shdr loadinfo)"
      and all: "\<forall>h. modlib_symvalue incr modp loadinfo esym sh_off (g\<lparr>after_shdr := h\<rparr>) =
                 Some (OK, esym\<lparr>st_value := st_value esym + a\<rparr>, loadinfo,
                       g\<lparr>after_shdr := h\<rparr>)" for a
  proof -
    let ?h = "\<lambda>v. (\<lambda>k. ex_stray\<lparr>sh_addr := v\<rparr>)"
    have eq: "esym\<lparr>st_value := st_value esym + v\<rparr> = esym\<lparr>st_value := st_value esym + a\<rparr>"
      for v
      using all [rule_format, of "?h v"] run [of "?h v"] out by simp
    have "st_value esym + v = st_value esym + a" for v
      using arg_cong [OF eq [of v], of st_value] by simp
    then have "v = a" for v by simp
    from this [of 0] this [of 1] show False by simp
  qed
  from run fixed varies show ?thesis by blast
qed

theorem modlib_symvalue_section_index_unchecked_witness:
  "modlib_symvalue 8 ex_modp ex_loadinfo (ex_named 1) 0 ex_globals =
     Some (OK, (ex_named 1)\<lparr>st_value := 0x8010\<rparr>, ex_loadinfo, ex_globals) \<and>
   modlib_symvalue 8 ex_modp ex_loadinfo ((ex_named 1)\<lparr>st_shndx := 2\<rparr>) 0 ex_globals =
     Some (OK, (ex_named 1)\<lparr>st_shndx := 2, st_value := 0xdead0010\<rparr>, ex_loadinfo,
           ex_globals)"
proof -
  have a: "st_shndx (ex_named 1) \<noteq> SHN_COMMON" "st_shndx (ex_named 1) \<noteq> SHN_ABS"
    "st_shndx (ex_named 1) \<noteq> SHN_UNDEF"
    by (simp_all add: ex_named_def SHN_COMMON_def SHN_ABS_def SHN_UNDEF_def)
  have b: "st_shndx ((ex_named 1)\<lparr>st_shndx := 2\<rparr>) \<noteq> SHN_COMMON"
    "st_shndx ((ex_named 1)\<lparr>st_shndx := 2\<rparr>) \<noteq> SHN_ABS"
    "st_shndx ((ex_named 1)\<lparr>st_shndx := 2\<rparr>) \<noteq> SHN_UNDEF"
    by (simp_all add: SHN_COMMON_def SHN_ABS_def SHN_UNDEF_def)
  have g: "ex_globals\<lparr>after_shdr := \<lambda>k. ex_stray\<rparr> = ex_globals"
    by (simp add: ex_globals_def)
  from modlib_symvalue_section_index_unchecked
         [OF a, of 8 ex_modp ex_loadinfo 0 ex_globals, THEN conjunct1, rule_format,
          of "\<lambda>k. ex_stray"]
       modlib_symvalue_section_index_unchecked
         [OF b, of 8 ex_modp ex_loadinfo 0 ex_globals, THEN conjunct1, rule_format,
          of "\<lambda>k. ex_stray"]
  show ?thesis unfolding g by (simp add: ex_named_def ex_loadinfo_def ex_stray_def)
qed

text \<open>
  C10.  Whenever \<^verbatim>\<open>modlib_symvalue\<close> returns an error, the symbol entry is the one
  that was passed in: the source assigns to \<^verbatim>\<open>sym->st_value\<close> only on the two paths
  that end in OK.
\<close>

theorem modlib_symvalue_error_keeps_sym:
  assumes "modlib_symvalue incr modp loadinfo esym sh_off g = Some (r, esym1, loadinfo1, g1)"
    and "r \<noteq> OK"
  shows "esym1 = esym"
  using assms
  by (auto simp: modlib_symvalue_def Let_def
           split: if_splits option.splits sum.splits prod.splits)

theorem modlib_symvalue_error_keeps_sym_witness:
  "modlib_symvalue 8 ex_modp ex_loadinfo (ex_undef 9) 0 ex_globals =
     Some (Inl ENOENT, ex_undef 9,
           ex_loadinfo\<lparr>iobuffer := [98, 97, 122, 0, 0, 0, 0, 0]\<rparr>, ex_globals) \<and>
   Inl ENOENT \<noteq> OK \<and> ex_undef 9 = ex_undef 9"
proof -
  have h: "modlib_symvalue 8 ex_modp ex_loadinfo (ex_undef 9) 0 ex_globals =
     Some (Inl ENOENT, ex_undef 9,
           ex_loadinfo\<lparr>iobuffer := [98, 97, 122, 0, 0, 0, 0, 0]\<rparr>, ex_globals)"
    by (simp add: ex_defs eval_defs)
  have n: "Inl ENOENT \<noteq> OK" by simp
  from h n modlib_symvalue_error_keeps_sym [OF h n] show ?thesis by simp
qed

subsection \<open>The export table of a module\<close>

lemma modlib_freesymtab_null:
  "exports modp = 0 \<Longrightarrow> modlib_freesymtab modp g = g"
  by (simp add: modlib_freesymtab_def)

lemma modlib_insertsymtab_ENOMEM:
  assumes "exports modp = 0"
    and "unat (sh_size shdrp) div sizeof_Elf_Sym \<le> length syms"
    and "\<exists>s\<in>set (take (unat (sh_size shdrp) div sizeof_Elf_Sym) syms). st_name s \<noteq> 0"
    and "avail g = False # rest"
  shows "modlib_insertsymtab incr modp loadinfo shdrp syms g =
         Some (Inl ENOMEM, modp\<lparr>exports := 0\<rparr>, loadinfo\<lparr>exported := 0\<rparr>,
               g\<lparr>avail := rest\<rparr>)"
proof -
  have "filter (\<lambda>s. st_name s \<noteq> 0) (take (unat (sh_size shdrp) div sizeof_Elf_Sym) syms) \<noteq> []"
    using assms(3) by (simp add: filter_empty_conv)
  with assms(1,2,4) show ?thesis
    by (simp add: modlib_insertsymtab_def lib_malloc_def Let_def)
qed

text \<open>
  C2.  Teardown is to free the names and the array and then clear the module's
  reference to the table, so that a second teardown finds no table and does
  nothing.  The source frees the names and the array and stops there; nothing is
  assigned to \<^verbatim>\<open>modinfo.exports\<close>.  For a module with a table of one export at
  address 1, the name at address 2: after the call both allocations are gone, the
  module still refers to address 1, and a second call reads the freed array and
  frees it again.  The same stale reference is what \<^verbatim>\<open>modlib_insertsymtab\<close> returns
  with OK when it rebuilds the table of this module from a section without names.
\<close>

theorem modlib_freesymtab_keeps_reference:
  "objs (modlib_freesymtab ex_mod_loaded ex_heap_loaded) 1 = None \<and>
   objs (modlib_freesymtab ex_mod_loaded ex_heap_loaded) 2 = None \<and>
   faults (modlib_freesymtab ex_mod_loaded ex_heap_loaded) = [] \<and>
   exports ex_mod_loaded = 1 \<and>
   faults (modlib_freesymtab ex_mod_loaded (modlib_freesymtab ex_mod_loaded ex_heap_loaded))
     = [BadAccess 1, BadFree 1] \<and>
   modlib_insertsymtab 4 ex_mod_loaded ex_short (ex_symsec 16) [ex_nosym] ex_heap_loaded =
     Some (OK, ex_mod_loaded, ex_short, modlib_freesymtab ex_mod_loaded ex_heap_loaded)"
  by (simp add: ex_defs eval_defs)

text \<open>
  C6.  Every failing step of the builder is to be fatal and to release all that was
  built.  First run: two named symbols, the name of the second lies beyond the end
  of the file.  The builder returns \<open>EINVAL\<close> with the module's reference cleared and
  the array (address 1) freed, but the copy of the first name (address 2) stays
  allocated, and \<^verbatim>\<open>loadinfo->exported\<close> still holds the address of the freed array.
  Second run: one named symbol, memory for the array but none for the copy of the
  name.  The result of \<^verbatim>\<open>strdup\<close> is not looked at: the builder returns OK and
  leaves a table attached whose entry has a null name.
\<close>

theorem modlib_insertsymtab_failure_paths:
  "(case modlib_insertsymtab 4 ex_modp ex_short (ex_symsec 32) [ex_named 1, ex_named 5] ex_heap of
      Some (r, m, l, g) \<Rightarrow>
        r = Inl EINVAL \<and> exports m = 0 \<and> exported l = 1 \<and> objs g 1 = None \<and>
        objs g 2 = Some (Str [97])
    | None \<Rightarrow> False) \<and>
   (case modlib_insertsymtab 4 ex_modp ex_short (ex_symsec 16) [ex_named 1]
           (ex_heap\<lparr>avail := [True, False]\<rparr>) of
      Some (r, m, l, g) \<Rightarrow>
        r = OK \<and> exports m = 1 \<and> nexports m = 1 \<and>
        objs g 1 = Some (Tab [\<lparr>sym_name = 0, sym_value = 0x10\<rparr>])
    | None \<Rightarrow> False)"
  by (simp add: ex_defs eval_defs)

text \<open>
  C7.  A section without named symbols is to give a table that is present and
  empty.  The source allocates a table only if it has counted a named symbol.  The
  claim fails for a module without a table and a section of one unnamed symbol:
  the builder returns OK and the module's reference is still null, with no table
  behind it.
\<close>

theorem insertsymtab_without_names_table_absent:
  "modlib_insertsymtab 4 ex_modp ex_short (ex_symsec 16) [ex_nosym] ex_heap =
     Some (OK, ex_modp, ex_short, ex_heap) \<and>
   exports ex_modp = 0 \<and> table_at ex_heap (exports ex_modp) 0 = None"
  by (simp add: ex_defs eval_defs)

text \<open>
  C7, as amended.  For a module that has no export table and a section none of
  whose symbols has a name, the builder returns OK and changes nothing: no memory
  is requested, and the module's reference stays null.
\<close>

theorem modlib_insertsymtab_no_names:
  assumes "exports modp = 0"
    and "unat (sh_size shdrp) div sizeof_Elf_Sym \<le> length syms"
    and "\<forall>s\<in>set (take (unat (sh_size shdrp) div sizeof_Elf_Sym) syms). st_name s = 0"
  shows "modlib_insertsymtab incr modp loadinfo shdrp syms g = Some (OK, modp, loadinfo, g)"
proof -
  have "filter (\<lambda>s. st_name s \<noteq> 0) (take (unat (sh_size shdrp) div sizeof_Elf_Sym) syms) = []"
    using assms(3) by (simp add: filter_empty_conv)
  with assms(1,2) show ?thesis
    by (simp add: modlib_insertsymtab_def Let_def)
qed

theorem modlib_insertsymtab_no_names_witness:
  "modlib_insertsymtab 4 ex_modp ex_short (ex_symsec 32) [ex_nosym, ex_nosym] ex_heap =
     Some (OK, ex_modp, ex_short, ex_heap)"
proof -
  have h1: "exports ex_modp = 0" by (simp add: ex_modp_def)
  have h2: "unat (sh_size (ex_symsec 32)) div sizeof_Elf_Sym \<le> length [ex_nosym, ex_nosym]"
    by (simp add: ex_symsec_def sizeof_Elf_Sym_def)
  have h3: "\<forall>s\<in>set (take (unat (sh_size (ex_symsec 32)) div sizeof_Elf_Sym)
                         [ex_nosym, ex_nosym]). st_name s = 0"
    by (simp add: ex_symsec_def sizeof_Elf_Sym_def ex_nosym_def)
  from modlib_insertsymtab_no_names [OF h1 h2 h3] show ?thesis .
qed

end
